theory Spec2Isabelle
  imports Complex_Main "HOL-Library.Multiset" "HOL-Library.Sublist"
begin

section \<open>Python values\<close>

text \<open>
  A Python \<open>str\<close> is a sequence of Unicode code points, and \<open>len\<close> counts code points.
  A code point is a natural number here; \<open>str\<close> reads an ASCII literal of the source as
  such a sequence. Messages produced by the program (always ASCII) stay \<open>string\<close>s.
\<close>

type_synonym pychar = nat
type_synonym pystr = "pychar list"

definition str :: "string \<Rightarrow> pystr" where
  "str s = map of_char s"

text \<open>
  The exceptions the two components can raise. Both validation failures of the generator
  are \<open>ValueError\<close>s, told apart by their message; \<open>IndexError\<close> is what
  \<open>secrets.choice\<close> raises on an empty sequence; \<open>OverflowError\<close> is what the float
  power \<open>2 ** x\<close> raises when the result exceeds the largest double.
\<close>

datatype py_error = ValueError string | IndexError | OverflowError

text \<open>
  What the standard library knows about code points outside ASCII: which of them are
  decimal digits (category Nd, matched by the regular expression \<open>\d\<close>), and what
  \<open>str.lower\<close> and \<open>str.capitalize\<close> return for a string that is not pure ASCII.
  These tables are not part of the repository; the program is modelled for any value of
  them. On ASCII the three operations are written out below.
\<close>

record unicode_tables =
  uni_decimal :: "pychar \<Rightarrow> bool"
  uni_lower :: "pystr \<Rightarrow> pystr"
  uni_capitalize :: "pystr \<Rightarrow> pystr"

definition is_ascii :: "pystr \<Rightarrow> bool" where
  "is_ascii s = list_all (\<lambda>c. c < 128) s"

definition ascii_lower :: "pychar \<Rightarrow> pychar" where
  "ascii_lower c = (if 65 \<le> c \<and> c \<le> 90 then c + 32 else c)"

definition ascii_upper :: "pychar \<Rightarrow> pychar" where
  "ascii_upper c = (if 97 \<le> c \<and> c \<le> 122 then c - 32 else c)"

definition py_lower :: "unicode_tables \<Rightarrow> pystr \<Rightarrow> pystr" where
  "py_lower U s = (if is_ascii s then map ascii_lower s else uni_lower U s)"

definition py_capitalize :: "unicode_tables \<Rightarrow> pystr \<Rightarrow> pystr" where
  "py_capitalize U s =
     (if is_ascii s
      then (case s of [] \<Rightarrow> [] | c # cs \<Rightarrow> ascii_upper c # map ascii_lower cs)
      else uni_capitalize U s)"

text \<open>\<open>sep.join(words)\<close>.\<close>

fun py_join :: "pystr \<Rightarrow> pystr list \<Rightarrow> pystr" where
  "py_join sep [] = []"
| "py_join sep [w] = w"
| "py_join sep (w # ws) = w @ sep @ py_join sep ws"

text \<open>\<open>str(n)\<close> for a natural number: its decimal digits.\<close>

fun show_nat :: "nat \<Rightarrow> string" where
  "show_nat n =
     (if n < 10 then [char_of (48 + n)]
      else show_nat (n div 10) @ [char_of (48 + n mod 10)])"

declare show_nat.simps [simp del]

section \<open>The secure random source\<close>

text \<open>
  The operating system's random source is an unbounded sequence of draws; the state is
  what is left of it. \<open>randbelow n\<close> consumes one draw and returns a number below
  \<open>n\<close>: any such number is possible. \<open>secrets.choice\<close> indexes the sequence with it
  and raises \<open>IndexError\<close> on an empty sequence.
\<close>

type_synonym rng = "nat \<Rightarrow> nat"

definition randbelow :: "nat \<Rightarrow> rng \<Rightarrow> nat \<times> rng" where
  "randbelow n g = (g 0 mod n, \<lambda>i. g (Suc i))"

definition choice :: "'a list \<Rightarrow> rng \<Rightarrow> py_error + ('a \<times> rng)" where
  "choice seq g =
     (if seq = [] then Inl IndexError
      else (case randbelow (length seq) g of (j, g') \<Rightarrow> Inr (seq ! j, g')))"

text \<open>\<open>[secrets.choice(seq) for _ in range(n)]\<close>: \<open>n\<close> draws, in order.\<close>

fun choices :: "'a list \<Rightarrow> nat \<Rightarrow> rng \<Rightarrow> py_error + ('a list \<times> rng)" where
  "choices seq 0 g = Inr ([], g)"
| "choices seq (Suc n) g =
     (case choice seq g of
        Inl e \<Rightarrow> Inl e
      | Inr (c, g1) \<Rightarrow>
          (case choices seq n g1 of
             Inl e \<Rightarrow> Inl e
           | Inr (cs, g2) \<Rightarrow> Inr (c # cs, g2)))"

text \<open>
  \<open>random.shuffle\<close>, as the standard library writes it:
  \<^verbatim>\<open>
  for i in reversed(range(1, len(x))):
      j = randbelow(i + 1)
      x[i], x[j] = x[j], x[i]
  \<close>
  \<open>shuffle_from i\<close> runs the iterations \<open>i, i - 1, ..., 1\<close>.
\<close>

fun shuffle_from :: "nat \<Rightarrow> 'a list \<Rightarrow> rng \<Rightarrow> 'a list \<times> rng" where
  "shuffle_from 0 x g = (x, g)"
| "shuffle_from (Suc k) x g =
     (case randbelow (Suc k + 1) g of
        (j, g') \<Rightarrow> shuffle_from k (x[Suc k := x ! j, j := x ! Suc k]) g')"

definition shuffle :: "'a list \<Rightarrow> rng \<Rightarrow> 'a list \<times> rng" where
  "shuffle x g = shuffle_from (length x - 1) x g"

section \<open>generator.py\<close>

definition lowercase :: pystr where
  "lowercase = str ''abcdefghijklmnopqrstuvwxyz''"

definition uppercase :: pystr where
  "uppercase = str ''ABCDEFGHIJKLMNOPQRSTUVWXYZ''"

definition digits :: pystr where
  "digits = str ''0123456789''"

definition symbols :: pystr where
  "symbols = str ''!@#$%^&*()_+-=[]{}|;:,.<>?''"

definition word_list :: "pystr list" where
  "word_list = map str
     [''correct'', ''horse'', ''battery'', ''staple'', ''mountain'', ''river'',
      ''ocean'', ''forest'', ''castle'', ''dragon'', ''wizard'', ''knight'',
      ''phoenix'', ''thunder'', ''crystal'', ''shadow'', ''silver'', ''golden'',
      ''mystic'', ''ancient'', ''cosmic'', ''digital'', ''quantum'', ''stellar'',
      ''cipher'', ''falcon'', ''granite'', ''harbor'', ''island'', ''jungle'',
      ''kingdom'', ''lunar'', ''nebula'', ''orbit'', ''prism'', ''radar'',
      ''summit'', ''tempest'', ''ultraviolet'', ''vertex'', ''whisper'', ''xenon'',
      ''yellow'', ''zenith'', ''alpha'', ''bravo'', ''charlie'', ''delta'']"

text \<open>
  The two \<open>ValueError\<close>s of \<open>generate\<close> and the one of \<open>generate_passphrase\<close>, under
  the names the specification gives them.
\<close>

definition InvalidLength :: py_error where
  "InvalidLength = ValueError ''Password length must be at least 8 characters''"

definition NoCharsetSelected :: py_error where
  "NoCharsetSelected = ValueError ''At least one character type must be selected''"

definition InvalidWordCount :: py_error where
  "InvalidWordCount = ValueError ''Passphrase must contain at least 3 words''"

text \<open>
  \<^verbatim>\<open>if use_x: password.append(secrets.choice(self.x))\<close> on the pair of the
  password built so far and the random source.
\<close>

definition append_choice :: "bool \<Rightarrow> pystr \<Rightarrow> pystr \<times> rng \<Rightarrow> py_error + (pystr \<times> rng)" where
  "append_choice use cls st =
     (if use
      then (case choice cls (snd st) of
              Inl e \<Rightarrow> Inl e
            | Inr (c, g') \<Rightarrow> Inr (fst st @ [c], g'))
      else Inr st)"

definition build_charset :: "bool \<Rightarrow> bool \<Rightarrow> bool \<Rightarrow> bool \<Rightarrow> pystr" where
  "build_charset use_lowercase use_uppercase use_digits use_symbols =
     (if use_lowercase then lowercase else []) @
     (if use_uppercase then uppercase else []) @
     (if use_digits then digits else []) @
     (if use_symbols then symbols else [])"

definition generate ::
  "int \<Rightarrow> bool \<Rightarrow> bool \<Rightarrow> bool \<Rightarrow> bool \<Rightarrow> rng \<Rightarrow> py_error + (pystr \<times> rng)" where
  "generate len use_lowercase use_uppercase use_digits use_symbols g =
     (if len < 8 then Inl InvalidLength
      else
        let charset = build_charset use_lowercase use_uppercase use_digits use_symbols in
        if charset = [] then Inl NoCharsetSelected
        else
          (case append_choice use_lowercase lowercase ([], g) of Inl e \<Rightarrow> Inl e | Inr st1 \<Rightarrow>
          (case append_choice use_uppercase uppercase st1 of Inl e \<Rightarrow> Inl e | Inr st2 \<Rightarrow>
          (case append_choice use_digits digits st2 of Inl e \<Rightarrow> Inl e | Inr st3 \<Rightarrow>
          (case append_choice use_symbols symbols st3 of Inl e \<Rightarrow> Inl e | Inr (password, g4) \<Rightarrow>
             let remaining_length = len - int (length password) in
             (case choices charset (nat remaining_length) g4 of Inl e \<Rightarrow> Inl e | Inr (rest, g5) \<Rightarrow>
                Inr (shuffle (password @ rest) g5)))))))"

definition generate_passphrase ::
  "unicode_tables \<Rightarrow> int \<Rightarrow> pystr \<Rightarrow> bool \<Rightarrow> rng \<Rightarrow> py_error + (pystr \<times> rng)" where
  "generate_passphrase U word_count separator capitalize g =
     (if word_count < 3 then Inl InvalidWordCount
      else
        (case choices word_list (nat word_count) g of
           Inl e \<Rightarrow> Inl e
         | Inr (selected_words, g') \<Rightarrow>
             Inr (py_join separator
                    (if capitalize then map (py_capitalize U) selected_words
                     else selected_words), g')))"

text \<open>\<open>s.split(c)\<close> for a one-character separator: the segments between its occurrences.\<close>

fun split_on :: "pychar \<Rightarrow> pystr \<Rightarrow> pystr list" where
  "split_on c [] = [[]]"
| "split_on c (x # xs) =
     (if x = c then [] # split_on c xs
      else (case split_on c xs of
              [] \<Rightarrow> [[x]]
            | seg # segs \<Rightarrow> (x # seg) # segs))"

section \<open>models.py\<close>

datatype StrengthLevel = VERY_WEAK | WEAK | FAIR | GOOD | STRONG | VERY_STRONG

text \<open>
  Python floats are idealised as real numbers: \<open>math.log2\<close> is the exact logarithm and
  products are exact. Two things of the float arithmetic are kept, because the program's
  behaviour depends on them: \<open>round(x, 2)\<close> rounds a tie to the even neighbour, and
  \<open>2 ** x\<close> raises \<open>OverflowError\<close> from \<open>x = 1024\<close> on.
\<close>

record PasswordAnalysis =
  password :: pystr
  strength :: StrengthLevel
  score :: int
  entropy :: real
  feedback :: "string list"
  time_to_crack :: string

section \<open>checker.py\<close>

definition COMMON_PASSWORDS :: "string list" where
  "COMMON_PASSWORDS =
     [''password'', ''123456'', ''12345678'', ''qwerty'', ''abc123'',
      ''monkey'', ''1234567'', ''letmein'', ''trustno1'', ''dragon'',
      ''baseball'', ''iloveyou'', ''master'', ''sunshine'', ''ashley'',
      ''bailey'', ''passw0rd'', ''shadow'', ''123123'', ''654321'',
      ''admin'', ''welcome'', ''login'', ''password1'', ''qwerty123'']"

definition COMMON_PATTERNS :: "string list" where
  "COMMON_PATTERNS = [''123'', ''abc'', ''qwe'', ''111'', ''000'', ''aaa'']"

definition KEYBOARD_PATTERNS :: "string list" where
  "KEYBOARD_PATTERNS =
     [''qwerty'', ''asdfgh'', ''zxcvbn'', ''1qaz'', ''2wsx'',
      ''qwertyuiop'', ''asdfghjkl'', ''zxcvbnm'']"

definition min_length :: nat where "min_length = 8"
definition recommended_length :: nat where "recommended_length = 12"
definition strong_length :: nat where "strong_length = 16"

text \<open>
  The four regular-expression searches: \<open>[a-z]\<close>, \<open>[A-Z]\<close>, \<open>\d\<close> (the ASCII digits
  and every other decimal digit of Unicode) and \<open>[^a-zA-Z0-9]\<close>.
\<close>

definition has_lower :: "pystr \<Rightarrow> bool" where
  "has_lower p = list_ex (\<lambda>c. 97 \<le> c \<and> c \<le> 122) p"

definition has_upper :: "pystr \<Rightarrow> bool" where
  "has_upper p = list_ex (\<lambda>c. 65 \<le> c \<and> c \<le> 90) p"

definition has_digit :: "unicode_tables \<Rightarrow> pystr \<Rightarrow> bool" where
  "has_digit U p = list_ex (\<lambda>c. (48 \<le> c \<and> c \<le> 57) \<or> (128 \<le> c \<and> uni_decimal U c)) p"

definition has_symbol :: "pystr \<Rightarrow> bool" where
  "has_symbol p =
     list_ex (\<lambda>c. \<not> ((97 \<le> c \<and> c \<le> 122) \<or> (65 \<le> c \<and> c \<le> 90) \<or> (48 \<le> c \<and> c \<le> 57))) p"

text \<open>
  The search for \<open>(.)\1{2,}\<close>: three equal characters in a row; the dot does not
  match a newline (code point 10).
\<close>

fun has_repeat :: "pystr \<Rightarrow> bool" where
  "has_repeat (a # b # c # xs) = ((a \<noteq> 10 \<and> a = b \<and> b = c) \<or> has_repeat (b # c # xs))"
| "has_repeat xs = False"

text \<open>\<open>pattern in s\<close> on strings: \<open>pattern\<close> occurs in \<open>s\<close> as a substring.\<close>

primrec str_in :: "pystr \<Rightarrow> pystr \<Rightarrow> bool" where
  "str_in pattern [] = (pattern = [])"
| "str_in pattern (x # xs) = (prefix pattern (x # xs) \<or> str_in pattern xs)"

definition check_length :: "pystr \<Rightarrow> int \<times> string list" where
  "check_length p =
     (let n = length p in
      if n < min_length
        then (- 2, [''Password too short. Use at least '' @ show_nat min_length @ '' characters''])
      else if n \<ge> strong_length then (3, [])
      else if n \<ge> recommended_length then (2, [])
      else (1, [''Consider using at least '' @ show_nat recommended_length @ '' characters'']))"

definition check_character_variety :: "unicode_tables \<Rightarrow> pystr \<Rightarrow> int \<times> string list" where
  "check_character_variety U p =
     ((if has_lower p then 1 else 0) + (if has_upper p then 1 else 0) +
      (if has_digit U p then 1 else 0) + (if has_symbol p then 2 else 0),
      (if has_lower p then [] else [''Add lowercase letters (a-z)'']) @
      (if has_upper p then [] else [''Add uppercase letters (A-Z)'']) @
      (if has_digit U p then [] else [''Add numbers (0-9)'']) @
      (if has_symbol p then [] else [''Add special characters (!@#$%^&*)'']))"

definition check_patterns :: "unicode_tables \<Rightarrow> pystr \<Rightarrow> int \<times> string list" where
  "check_patterns U p =
     (let lower_pwd = py_lower U p;
          (penalty, fb) =
             (if lower_pwd \<in> set (map str COMMON_PASSWORDS)
              then (- 5, [''This is a commonly used password - avoid it''])
              else (0, []))
      in case find (\<lambda>pattern. str_in (str pattern) lower_pwd) COMMON_PATTERNS of
           None \<Rightarrow> (penalty, fb)
         | Some pattern \<Rightarrow>
             (penalty - 1,
              fb @ [''Avoid common patterns like '' @ [CHR 0x27] @ pattern @ [CHR 0x27]]))"

definition check_sequences :: "unicode_tables \<Rightarrow> pystr \<Rightarrow> int \<times> string list" where
  "check_sequences U p =
     (let (penalty, fb) =
             (if has_repeat p
              then (- 1, [''Avoid repeated characters (e.g., '' @ [CHR 0x27] @ ''aaa'' @
                          [CHR 0x27] @ '', '' @ [CHR 0x27] @ ''111'' @ [CHR 0x27] @ '')''])
              else (0, []));
          lower_pwd = py_lower U p
      in if list_ex (\<lambda>pattern. str_in (str pattern) lower_pwd) KEYBOARD_PATTERNS
         then (penalty - 1, fb @ [''Avoid keyboard patterns''])
         else (penalty, fb))"

definition charset_size :: "unicode_tables \<Rightarrow> pystr \<Rightarrow> nat" where
  "charset_size U p =
     (if has_lower p then 26 else 0) + (if has_upper p then 26 else 0) +
     (if has_digit U p then 10 else 0) + (if has_symbol p then 32 else 0)"

definition round_half_even :: "real \<Rightarrow> int" where
  "round_half_even x =
     (let f = \<lfloor>x\<rfloor>; d = x - of_int f in
      if d < 1 / 2 then f
      else if 1 / 2 < d then f + 1
      else if even f then f else f + 1)"

definition py_round2 :: "real \<Rightarrow> real" where
  "py_round2 x = of_int (round_half_even (x * 100)) / 100"

definition calculate_entropy :: "unicode_tables \<Rightarrow> pystr \<Rightarrow> real" where
  "calculate_entropy U p =
     (if charset_size U p = 0 then 0
      else py_round2 (real (length p) * log 2 (real (charset_size U p))))"

definition determine_strength :: "int \<Rightarrow> real \<Rightarrow> StrengthLevel" where
  "determine_strength sc ent =
     (if sc \<le> 0 \<or> ent < 28 then VERY_WEAK
      else if sc \<le> 2 \<or> ent < 36 then WEAK
      else if sc \<le> 4 \<or> ent < 50 then FAIR
      else if sc \<le> 6 \<or> ent < 60 then GOOD
      else if sc \<le> 8 \<or> ent < 70 then STRONG
      else VERY_STRONG)"

definition estimate_crack_time :: "real \<Rightarrow> py_error + string" where
  "estimate_crack_time ent =
     (if 1024 \<le> ent then Inl OverflowError
      else
        let attempts = 2 powr ent;
            guesses_per_second = 10 ^ 9;
            seconds = attempts / guesses_per_second
        in if seconds < 1 then Inr ''Instant''
           else if seconds < 60 then Inr (show_nat (nat \<lfloor>seconds\<rfloor>) @ '' seconds'')
           else if seconds < 3600 then Inr (show_nat (nat \<lfloor>seconds / 60\<rfloor>) @ '' minutes'')
           else if seconds < 86400 then Inr (show_nat (nat \<lfloor>seconds / 3600\<rfloor>) @ '' hours'')
           else if seconds < 31536000 then Inr (show_nat (nat \<lfloor>seconds / 86400\<rfloor>) @ '' days'')
           else if seconds < 31536000 * 100
             then Inr (show_nat (nat \<lfloor>seconds / 31536000\<rfloor>) @ '' years'')
           else Inr ''Centuries'')"

text \<open>
  \<open>total_score\<close> is the local variable \<open>score\<close> of \<open>check_strength\<close> after the four
  checks, and \<open>all_feedback\<close> its variable \<open>feedback\<close>.
\<close>

definition total_score :: "unicode_tables \<Rightarrow> pystr \<Rightarrow> int" where
  "total_score U p =
     0 + fst (check_length p) + fst (check_character_variety U p) +
     fst (check_patterns U p) + fst (check_sequences U p)"

definition all_feedback :: "unicode_tables \<Rightarrow> pystr \<Rightarrow> string list" where
  "all_feedback U p =
     [] @ snd (check_length p) @ snd (check_character_variety U p) @
     snd (check_patterns U p) @ snd (check_sequences U p)"

definition check_strength :: "unicode_tables \<Rightarrow> pystr \<Rightarrow> py_error + PasswordAnalysis" where
  "check_strength U p =
     (if p = [] then
        Inr \<lparr>password = [], strength = VERY_WEAK, score = 0, entropy = 0,
             feedback = [''Password cannot be empty''], time_to_crack = ''Instant''\<rparr>
      else
        let sc = total_score U p;
            fb = all_feedback U p;
            ent = calculate_entropy U p;
            lvl = determine_strength sc ent
        in case estimate_crack_time ent of
             Inl e \<Rightarrow> Inl e
           | Inr t \<Rightarrow>
               Inr \<lparr>password = p, strength = lvl, score = max 0 sc, entropy = ent,
                    feedback = (if fb \<noteq> [] then fb else [''Password meets security requirements'']),
                    time_to_crack = t\<rparr>)"

text \<open>A table with no entry outside ASCII, for running the model on ASCII input.\<close>

definition ascii_only :: unicode_tables where
  "ascii_only = \<lparr>uni_decimal = (\<lambda>c. False), uni_lower = (\<lambda>s. s), uni_capitalize = (\<lambda>s. s)\<rparr>"

section \<open>Properties of the generator\<close>

text \<open>
  C7. The specification says that the generator's fixed symbol set has 28 characters.
  The literal in the source does not.
\<close>

theorem symbols_not_28: "length symbols \<noteq> 28"
  by (simp add: symbols_def str_def)

text \<open>
  C7, as the code has it: the symbol set has exactly 26 characters, all different.
\<close>

theorem symbols_26: "length symbols = 26 \<and> distinct symbols"
  by (simp add: symbols_def str_def)

lemma randbelow_less: "0 < n \<Longrightarrow> fst (randbelow n g) < n"
  by (simp add: randbelow_def)

lemma choice_returns:
  assumes "seq \<noteq> []"
  shows "\<exists>c g'. choice seq g = Inr (c, g') \<and> c \<in> set seq"
proof -
  obtain j g' where r: "randbelow (length seq) g = (j, g')"
    by (cases "randbelow (length seq) g")
  from assms have "j < length seq"
    using randbelow_less [of "length seq" g] r by simp
  with assms r show ?thesis
    by (simp add: choice_def)
qed

lemma choices_returns:
  assumes "seq \<noteq> []"
  shows "\<exists>cs g'. choices seq n g = Inr (cs, g') \<and> length cs = n \<and> set cs \<subseteq> set seq"
proof (induction n arbitrary: g)
  case 0
  show ?case by simp
next
  case (Suc n)
  from choice_returns [OF assms, of g]
  obtain c g1 where c: "choice seq g = Inr (c, g1)" "c \<in> set seq" by blast
  from Suc.IH [of g1]
  obtain cs g2 where cs: "choices seq n g1 = Inr (cs, g2)" "length cs = n" "set cs \<subseteq> set seq"
    by blast
  from c cs show ?case by simp
qed

lemma shuffle_from_mset:
  "k < length x \<Longrightarrow> mset (fst (shuffle_from k x g)) = mset x"
proof (induction k arbitrary: x g)
  case 0
  show ?case by simp
next
  case (Suc k)
  obtain j g' where r: "randbelow (Suc k + 1) g = (j, g')"
    by (cases "randbelow (Suc k + 1) g")
  have "j < Suc k + 1"
    using randbelow_less [of "Suc k + 1" g] r by simp
  with Suc.prems have j: "j < length x" by simp
  let ?y = "x[Suc k := x ! j, j := x ! Suc k]"
  have "mset ?y = mset x"
    using mset_swap [OF j Suc.prems] .
  moreover have "k < length ?y" using Suc.prems by simp
  ultimately show ?case
    using Suc.IH [of ?y g'] r by simp
qed

lemma shuffle_mset: "mset (fst (shuffle x g)) = mset x"
proof (cases "x = []")
  case True
  then show ?thesis by (simp add: shuffle_def)
next
  case False
  then have "length x - 1 < length x" by simp
  then show ?thesis
    unfolding shuffle_def by (rule shuffle_from_mset)
qed

lemma shuffle_length: "length (fst (shuffle x g)) = length x"
  using shuffle_mset [of x g] by (metis size_mset)

lemma shuffle_set: "set (fst (shuffle x g)) = set x"
  using shuffle_mset [of x g] by (metis set_mset_mset)

lemma append_choice_returns:
  assumes "cls \<noteq> []"
  shows "\<exists>pw g'. append_choice use cls (pw0, g) = Inr (pw, g') \<and>
           (if use then \<exists>c \<in> set cls. pw = pw0 @ [c] else pw = pw0)"
proof (cases use)
  case True
  from choice_returns [OF assms, of g]
  obtain c g' where "choice cls g = Inr (c, g')" "c \<in> set cls" by blast
  with True show ?thesis by (simp add: append_choice_def)
next
  case False
  then show ?thesis by (simp add: append_choice_def)
qed

lemma class_nonempty:
  "lowercase \<noteq> []" "uppercase \<noteq> []" "digits \<noteq> []" "symbols \<noteq> []"
  by (simp_all add: lowercase_def uppercase_def digits_def symbols_def str_def)

lemma build_charset_nonempty:
  "ul \<or> uu \<or> ud \<or> us \<Longrightarrow> build_charset ul uu ud us \<noteq> []"
  by (auto simp: build_charset_def class_nonempty)

lemma build_charset_empty: "build_charset False False False False = []"
  by (simp add: build_charset_def)

lemma generate_returns:
  assumes len: "8 \<le> len" and flag: "ul \<or> uu \<or> ud \<or> us"
  shows "\<exists>pw g'. generate len ul uu ud us g = Inr (pw, g') \<and>
           length pw = nat len \<and>
           (ul \<longrightarrow> set pw \<inter> set lowercase \<noteq> {}) \<and>
           (uu \<longrightarrow> set pw \<inter> set uppercase \<noteq> {}) \<and>
           (ud \<longrightarrow> set pw \<inter> set digits \<noteq> {}) \<and>
           (us \<longrightarrow> set pw \<inter> set symbols \<noteq> {}) \<and>
           set pw \<subseteq> set (build_charset ul uu ud us)"
proof -
  let ?cs = "build_charset ul uu ud us"
  have cs: "?cs \<noteq> []" using flag by (rule build_charset_nonempty)
  obtain p1 g1 where s1: "append_choice ul lowercase ([], g) = Inr (p1, g1)"
      and p1: "if ul then \<exists>c \<in> set lowercase. p1 = [] @ [c] else p1 = []"
    using append_choice_returns [OF class_nonempty(1), of ul "[]" g] by blast
  obtain p2 g2 where s2: "append_choice uu uppercase (p1, g1) = Inr (p2, g2)"
      and p2: "if uu then \<exists>c \<in> set uppercase. p2 = p1 @ [c] else p2 = p1"
    using append_choice_returns [OF class_nonempty(2), of uu p1 g1] by blast
  obtain p3 g3 where s3: "append_choice ud digits (p2, g2) = Inr (p3, g3)"
      and p3: "if ud then \<exists>c \<in> set digits. p3 = p2 @ [c] else p3 = p2"
    using append_choice_returns [OF class_nonempty(3), of ud p2 g2] by blast
  obtain p4 g4 where s4: "append_choice us symbols (p3, g3) = Inr (p4, g4)"
      and p4: "if us then \<exists>c \<in> set symbols. p4 = p3 @ [c] else p4 = p3"
    using append_choice_returns [OF class_nonempty(4), of us p3 g3] by blast
  have l1: "length p1 \<le> 1" using p1 by (auto split: if_splits)
  have l2: "length p2 \<le> 2" using p2 l1 by (auto split: if_splits)
  have l3: "length p3 \<le> 3" using p3 l2 by (auto split: if_splits)
  have l4: "length p4 \<le> 4" using p4 l3 by (auto split: if_splits)
  have sub1: "set p1 \<subseteq> set p2" using p2 by (auto split: if_splits)
  have sub2: "set p2 \<subseteq> set p3" using p3 by (auto split: if_splits)
  have sub3: "set p3 \<subseteq> set p4" using p4 by (auto split: if_splits)
  have "ul \<longrightarrow> (\<exists>c \<in> set lowercase. c \<in> set p1)"
    using p1 by (auto split: if_splits)
  then have c1: "ul \<longrightarrow> set p4 \<inter> set lowercase \<noteq> {}"
    using sub1 sub2 sub3 by blast
  have "uu \<longrightarrow> (\<exists>c \<in> set uppercase. c \<in> set p2)"
    using p2 by (auto split: if_splits)
  then have c2: "uu \<longrightarrow> set p4 \<inter> set uppercase \<noteq> {}"
    using sub2 sub3 by blast
  have "ud \<longrightarrow> (\<exists>c \<in> set digits. c \<in> set p3)"
    using p3 by (auto split: if_splits)
  then have c3: "ud \<longrightarrow> set p4 \<inter> set digits \<noteq> {}"
    using sub3 by blast
  have "us \<longrightarrow> (\<exists>c \<in> set symbols. c \<in> set p4)"
    using p4 by (auto split: if_splits)
  then have c4: "us \<longrightarrow> set p4 \<inter> set symbols \<noteq> {}"
    by blast
  have in1: "set p1 \<subseteq> set ?cs" using p1 by (auto simp: build_charset_def split: if_splits)
  have in2: "set p2 \<subseteq> set ?cs" using p2 in1 by (auto simp: build_charset_def split: if_splits)
  have in3: "set p3 \<subseteq> set ?cs" using p3 in2 by (auto simp: build_charset_def split: if_splits)
  have in4: "set p4 \<subseteq> set ?cs" using p4 in3 by (auto simp: build_charset_def split: if_splits)
  let ?n = "nat (len - int (length p4))"
  obtain rest g5 where s5: "choices ?cs ?n g4 = Inr (rest, g5)"
      and r5: "length rest = ?n" "set rest \<subseteq> set ?cs"
    using choices_returns [OF cs, of ?n g4] by blast
  obtain pw g6 where s6: "shuffle (p4 @ rest) g5 = (pw, g6)"
    by (cases "shuffle (p4 @ rest) g5")
  have gen: "generate len ul uu ud us g = Inr (pw, g6)"
    using len cs s1 s2 s3 s4 s5 s6 by (simp add: generate_def Let_def)
  have pw_set: "set pw = set p4 \<union> set rest"
    using shuffle_set [of "p4 @ rest" g5] s6 by simp
  have pw_len: "length pw = length p4 + length rest"
    using shuffle_length [of "p4 @ rest" g5] s6 by simp
  have "length pw = nat len" using pw_len r5(1) l4 len by simp
  moreover have "set pw \<subseteq> set ?cs" using pw_set in4 r5(2) by simp
  ultimately show ?thesis
    using gen c1 c2 c3 c4 pw_set by blast
qed


lemma errors_distinct: "InvalidLength \<noteq> NoCharsetSelected"
  by (simp add: InvalidLength_def NoCharsetSelected_def)

text \<open>
  C1. For every length of at least 8 and every choice of the four class flags with at
  least one of them set, \<open>generate\<close> returns a password of exactly that length in
  which every selected class occurs at least once, whatever the random source draws.
\<close>

theorem generate_length_and_classes:
  assumes "8 \<le> len" and "use_lowercase \<or> use_uppercase \<or> use_digits \<or> use_symbols"
  shows "\<exists>pw g'. generate len use_lowercase use_uppercase use_digits use_symbols g = Inr (pw, g') \<and>
           int (length pw) = len \<and>
           (use_lowercase \<longrightarrow> (\<exists>c \<in> set pw. c \<in> set lowercase)) \<and>
           (use_uppercase \<longrightarrow> (\<exists>c \<in> set pw. c \<in> set uppercase)) \<and>
           (use_digits \<longrightarrow> (\<exists>c \<in> set pw. c \<in> set digits)) \<and>
           (use_symbols \<longrightarrow> (\<exists>c \<in> set pw. c \<in> set symbols))"
proof -
  from generate_returns [OF assms, of g]
  obtain pw g' where r: "generate len use_lowercase use_uppercase use_digits use_symbols g = Inr (pw, g')"
      "length pw = nat len"
      "use_lowercase \<longrightarrow> set pw \<inter> set lowercase \<noteq> {}"
      "use_uppercase \<longrightarrow> set pw \<inter> set uppercase \<noteq> {}"
      "use_digits \<longrightarrow> set pw \<inter> set digits \<noteq> {}"
      "use_symbols \<longrightarrow> set pw \<inter> set symbols \<noteq> {}"
    by blast
  have "int (length pw) = len" using r(2) assms(1) by simp
  with r show ?thesis by blast
qed

text \<open>The case of the specification: length 16, all four classes.\<close>

theorem generate_length_and_classes_witness:
  "(8::int) \<le> 16 \<and> (True \<or> True \<or> True \<or> True) \<and>
   (\<exists>pw g'. generate 16 True True True True (\<lambda>i. 7 * i + 3) = Inr (pw, g') \<and>
      int (length pw) = 16 \<and>
      (\<exists>c \<in> set pw. c \<in> set lowercase) \<and> (\<exists>c \<in> set pw. c \<in> set uppercase) \<and>
      (\<exists>c \<in> set pw. c \<in> set digits) \<and> (\<exists>c \<in> set pw. c \<in> set symbols))"
  using generate_length_and_classes [of 16 True True True True "\<lambda>i. 7 * i + 3"] by simp

text \<open>
  C6. \<open>generate\<close> fails with \<open>InvalidLength\<close> exactly when the length is below 8; it
  fails with \<open>NoCharsetSelected\<close> when the length is at least 8 and no class is
  selected; in every other case it returns a password.
\<close>

theorem generate_failures:
  "(generate len use_lowercase use_uppercase use_digits use_symbols g = Inl InvalidLength
      \<longleftrightarrow> len < 8) \<and>
   (8 \<le> len \<and> \<not> use_lowercase \<and> \<not> use_uppercase \<and> \<not> use_digits \<and> \<not> use_symbols \<longrightarrow>
      generate len use_lowercase use_uppercase use_digits use_symbols g = Inl NoCharsetSelected) \<and>
   (8 \<le> len \<and> (use_lowercase \<or> use_uppercase \<or> use_digits \<or> use_symbols) \<longrightarrow>
      (\<exists>pw g'. generate len use_lowercase use_uppercase use_digits use_symbols g = Inr (pw, g')))"
proof (intro conjI impI)
  show "generate len use_lowercase use_uppercase use_digits use_symbols g = Inl InvalidLength
      \<longleftrightarrow> len < 8"
  proof
    assume fails: "generate len use_lowercase use_uppercase use_digits use_symbols g = Inl InvalidLength"
    show "len < 8"
    proof (rule ccontr)
      assume "\<not> len < 8"
      then have len: "8 \<le> len" by simp
      show False
      proof (cases "use_lowercase \<or> use_uppercase \<or> use_digits \<or> use_symbols")
        case True
        from generate_returns [OF len True, of g] fails show False by auto
      next
        case False
        then have "generate len use_lowercase use_uppercase use_digits use_symbols g = Inl NoCharsetSelected"
          using len by (simp add: generate_def build_charset_empty)
        with fails errors_distinct show False by simp
      qed
    qed
  next
    assume "len < 8"
    then show "generate len use_lowercase use_uppercase use_digits use_symbols g = Inl InvalidLength"
      by (simp add: generate_def)
  qed
next
  assume "8 \<le> len \<and> \<not> use_lowercase \<and> \<not> use_uppercase \<and> \<not> use_digits \<and> \<not> use_symbols"
  then show "generate len use_lowercase use_uppercase use_digits use_symbols g = Inl NoCharsetSelected"
    by (simp add: generate_def build_charset_empty)
next
  assume a: "8 \<le> len \<and> (use_lowercase \<or> use_uppercase \<or> use_digits \<or> use_symbols)"
  then have "8 \<le> len" "use_lowercase \<or> use_uppercase \<or> use_digits \<or> use_symbols" by simp_all
  from generate_returns [OF this, of g]
  show "\<exists>pw g'. generate len use_lowercase use_uppercase use_digits use_symbols g = Inr (pw, g')"
    by blast
qed

text \<open>Length 7, length 16 with no class, and length 16 with one class.\<close>

theorem generate_failures_witness:
  "generate 7 True True True True (\<lambda>i. i) = Inl InvalidLength \<and>
   generate 16 False False False False (\<lambda>i. i) = Inl NoCharsetSelected \<and>
   generate 16 False False False False (\<lambda>i. i) \<noteq> Inl InvalidLength \<and>
   (\<exists>pw g'. generate 16 False True False False (\<lambda>i. i) = Inr (pw, g'))"
  using generate_failures [of 7 True True True True "\<lambda>i. i"]
        generate_failures [of 16 False False False False "\<lambda>i. i"]
        generate_failures [of 16 False True False False "\<lambda>i. i"]
  by auto

text \<open>
  C10. The length is checked before the classes: a call with a length below 8 and no
  class selected reports \<open>InvalidLength\<close>, and \<open>NoCharsetSelected\<close> is only ever reported
  for a length of at least 8.
\<close>

theorem generate_length_checked_first:
  "(len < 8 \<longrightarrow> generate len False False False False g = Inl InvalidLength \<and>
                 generate len False False False False g \<noteq> Inl NoCharsetSelected) \<and>
   (generate len use_lowercase use_uppercase use_digits use_symbols g = Inl NoCharsetSelected
      \<longrightarrow> 8 \<le> len)"
proof (intro conjI impI)
  assume "len < 8"
  then show "generate len False False False False g = Inl InvalidLength"
    by (simp add: generate_def)
  then show "generate len False False False False g \<noteq> Inl NoCharsetSelected"
    using errors_distinct by simp
next
  assume ncs: "generate len use_lowercase use_uppercase use_digits use_symbols g = Inl NoCharsetSelected"
  show "8 \<le> len"
  proof (rule ccontr)
    assume "\<not> 8 \<le> len"
    then have "generate len use_lowercase use_uppercase use_digits use_symbols g = Inl InvalidLength"
      by (simp add: generate_def)
    with ncs errors_distinct show False by simp
  qed
qed

text \<open>Length 5 and length 8, both with no class selected.\<close>

theorem generate_length_checked_first_witness:
  "generate 5 False False False False (\<lambda>i. i) = Inl InvalidLength \<and>
   generate 5 False False False False (\<lambda>i. i) \<noteq> Inl NoCharsetSelected \<and>
   generate 8 False False False False (\<lambda>i. i) = Inl NoCharsetSelected \<and> (8::int) \<le> 8"
proof -
  have "generate 8 False False False False (\<lambda>i. i) = Inl NoCharsetSelected"
    by (simp add: generate_def build_charset_empty)
  then show ?thesis
    using generate_length_checked_first [of 5 "\<lambda>i. i" False False False False]
          generate_length_checked_first [of 8 "\<lambda>i. i" False False False False]
    by auto
qed

section \<open>Properties of the passphrase generator\<close>

lemma word_list_nonempty: "word_list \<noteq> []"
  by (simp add: word_list_def)

lemma word_list_lower:
  "\<forall>w \<in> set word_list. w \<noteq> [] \<and> (\<forall>c \<in> set w. 97 \<le> c \<and> c \<le> 122)"
  by (simp add: word_list_def str_def)

lemma py_capitalize_word:
  assumes "w \<noteq> []" and "\<forall>c \<in> set w. 97 \<le> c \<and> c \<le> 122"
  shows "py_capitalize U w \<noteq> [] \<and> 45 \<notin> set (py_capitalize U w)"
proof -
  obtain c cs where w: "w = c # cs" using assms(1) by (cases w) auto
  have asc: "is_ascii w" using assms(2) by (auto simp: is_ascii_def list_all_iff)
  have c: "ascii_upper c \<noteq> 45" using assms(2) w by (auto simp: ascii_upper_def)
  have "\<forall>d \<in> set cs. ascii_lower d \<noteq> 45" using assms(2) w by (auto simp: ascii_lower_def)
  then have "45 \<notin> set (map ascii_lower cs)" by auto
  with asc c w show ?thesis by (simp add: py_capitalize_def)
qed

lemma split_on_absent: "c \<notin> set w \<Longrightarrow> split_on c w = [w]"
  by (induction w) auto

lemma split_on_append:
  "c \<notin> set w \<Longrightarrow> split_on c (w @ c # rest) = w # split_on c rest"
  by (induction w) auto

lemma split_on_join:
  assumes "ws \<noteq> []" and "\<forall>w \<in> set ws. c \<notin> set w"
  shows "split_on c (py_join [c] ws) = ws"
  using assms
proof (induction "[c]" ws rule: py_join.induct)
  case 1
  then show ?case by simp
next
  case (2 w)
  then show ?case by (simp add: split_on_absent)
next
  case (3 w v vs)
  then show ?case by (simp add: split_on_append)
qed

lemma count_list_absent: "c \<notin> set w \<Longrightarrow> count_list w c = 0"
  by (induction w) auto

lemma count_list_join:
  assumes "ws \<noteq> []" and "\<forall>w \<in> set ws. c \<notin> set w"
  shows "count_list (py_join [c] ws) c = length ws - 1"
  using assms
proof (induction "[c]" ws rule: py_join.induct)
  case 1
  then show ?case by simp
next
  case (2 w)
  then show ?case by (simp add: count_list_absent)
next
  case (3 w v vs)
  then show ?case by (simp add: count_list_absent)
qed

lemma passphrase_words:
  assumes "set ws \<subseteq> set word_list"
  shows "\<forall>w \<in> set (if cap then map (py_capitalize U) ws else ws). w \<noteq> [] \<and> 45 \<notin> set w"
proof (cases cap)
  case True
  have "\<forall>w \<in> set ws. py_capitalize U w \<noteq> [] \<and> 45 \<notin> set (py_capitalize U w)"
    using assms word_list_lower py_capitalize_word by blast
  with True show ?thesis by simp
next
  case False
  have "\<forall>w \<in> set ws. w \<noteq> [] \<and> 45 \<notin> set w"
    using assms word_list_lower by fastforce
  with False show ?thesis by simp
qed

text \<open>
  C8. \<open>generate_passphrase\<close> fails with \<open>InvalidWordCount\<close> exactly when the word
  count is below 3. For a word count of at least 3 and the separator \<open>-\<close> it returns a
  string with exactly \<open>word_count - 1\<close> occurrences of \<open>-\<close>, which splits at them
  into \<open>word_count\<close> segments, none of them empty.
\<close>

theorem generate_passphrase_segments:
  "(generate_passphrase U word_count separator capitalize g = Inl InvalidWordCount
      \<longleftrightarrow> word_count < 3) \<and>
   (3 \<le> word_count \<longrightarrow>
      (\<exists>s g'. generate_passphrase U word_count (str ''-'') capitalize g = Inr (s, g') \<and>
         int (count_list s (of_char CHR ''-'')) = word_count - 1 \<and>
         int (length (split_on (of_char CHR ''-'') s)) = word_count \<and>
         [] \<notin> set (split_on (of_char CHR ''-'') s)))"
proof (intro conjI impI)
  obtain ws g' where ch: "choices word_list (nat word_count) g = Inr (ws, g')"
      and len: "length ws = nat word_count" and sub: "set ws \<subseteq> set word_list"
    using choices_returns [OF word_list_nonempty, of "nat word_count" g] by blast
  show "generate_passphrase U word_count separator capitalize g = Inl InvalidWordCount
      \<longleftrightarrow> word_count < 3"
    using ch by (simp add: generate_passphrase_def)
  assume wc: "3 \<le> word_count"
  let ?ws = "if capitalize then map (py_capitalize U) ws else ws"
  have words: "\<forall>w \<in> set ?ws. w \<noteq> [] \<and> 45 \<notin> set w"
    using passphrase_words [OF sub] .
  have l: "length ?ws = nat word_count" using len by simp
  have "ws \<noteq> []" using len wc by auto
  then have ne: "?ws \<noteq> []" by simp
  have absent: "\<forall>w \<in> set ?ws. 45 \<notin> set w" using words by blast
  have gp: "generate_passphrase U word_count (str ''-'') capitalize g = Inr (py_join [45] ?ws, g')"
    using wc ch by (simp add: generate_passphrase_def str_def)
  have sp: "split_on 45 (py_join [45] ?ws) = ?ws"
    using split_on_join [OF ne absent] .
  have ct: "count_list (py_join [45] ?ws) 45 = length ?ws - 1"
    using count_list_join [OF ne absent] .
  have "int (count_list (py_join [45] ?ws) 45) = word_count - 1"
    using ct l wc by simp
  moreover have "int (length (split_on 45 (py_join [45] ?ws))) = word_count"
    using sp l wc by simp
  moreover have "[] \<notin> set (split_on 45 (py_join [45] ?ws))"
    using sp words by auto
  ultimately show "\<exists>s g'. generate_passphrase U word_count (str ''-'') capitalize g = Inr (s, g') \<and>
         int (count_list s (of_char CHR ''-'')) = word_count - 1 \<and>
         int (length (split_on (of_char CHR ''-'') s)) = word_count \<and>
         [] \<notin> set (split_on (of_char CHR ''-'') s)"
    using gp by simp
qed

text \<open>Two words fail; four words give three separators and four segments.\<close>

theorem generate_passphrase_segments_witness:
  "generate_passphrase ascii_only 2 (str ''-'') False (\<lambda>i. i) = Inl InvalidWordCount \<and>
   (\<exists>s g'. generate_passphrase ascii_only 4 (str ''-'') False (\<lambda>i. i) = Inr (s, g') \<and>
      count_list s (of_char CHR ''-'') = 3 \<and>
      length (split_on (of_char CHR ''-'') s) = 4 \<and>
      [] \<notin> set (split_on (of_char CHR ''-'') s))"
  using generate_passphrase_segments [of ascii_only 2 "str ''-''" False "\<lambda>i. i"]
        generate_passphrase_segments [of ascii_only 4 "str ''-''" False "\<lambda>i. i"]
  by auto

section \<open>Properties of the strength checker\<close>

lemma round_half_even_bounds:
  "\<lfloor>x\<rfloor> \<le> round_half_even x \<and> round_half_even x \<le> \<lfloor>x\<rfloor> + 1"
  by (simp add: round_half_even_def Let_def)

lemma round_half_even_mono:
  assumes "x \<le> y"
  shows "round_half_even x \<le> round_half_even y"
proof (cases "\<lfloor>x\<rfloor> < \<lfloor>y\<rfloor>")
  case True
  then show ?thesis
    using round_half_even_bounds [of x] round_half_even_bounds [of y] by linarith
next
  case False
  then have eq: "\<lfloor>x\<rfloor> = \<lfloor>y\<rfloor>"
    using floor_mono [OF assms] by simp
  then have "x - of_int \<lfloor>y\<rfloor> \<le> y - of_int \<lfloor>y\<rfloor>"
    using assms by simp
  then show ?thesis
    by (auto simp: round_half_even_def Let_def eq)
qed

lemma round_half_even_of_int: "round_half_even (of_int n) = n"
  by (simp add: round_half_even_def Let_def)

lemma py_round2_mono: "x \<le> y \<Longrightarrow> py_round2 x \<le> py_round2 y"
  using round_half_even_mono [of "x * 100" "y * 100"]
  by (simp add: py_round2_def divide_right_mono)

lemma py_round2_of_int: "py_round2 (of_int n) = of_int n"
proof -
  have "of_int n * (100::real) = of_int (n * 100)" by simp
  then have "round_half_even (of_int n * 100) = n * 100"
    using round_half_even_of_int [of "n * 100"] by simp
  then show ?thesis by (simp add: py_round2_def)
qed

lemma py_round2_nonneg: "0 \<le> x \<Longrightarrow> 0 \<le> py_round2 x"
  using py_round2_mono [of 0 x] py_round2_of_int [of 0] by simp

lemma charset_size_cases:
  "charset_size U p = 0 \<or> 10 \<le> charset_size U p"
  by (simp add: charset_size_def)

lemma charset_size_le: "charset_size U p \<le> 94"
  by (simp add: charset_size_def)

lemma calculate_entropy_mono_length:
  assumes "charset_size U p = charset_size U q" and "length p \<le> length q"
  shows "calculate_entropy U p \<le> calculate_entropy U q"
proof (cases "charset_size U q = 0")
  case True
  with assms show ?thesis by (simp add: calculate_entropy_def)
next
  case False
  then have "10 \<le> charset_size U q" using charset_size_cases [of U q] by simp
  then have "0 \<le> log 2 (real (charset_size U q))" by simp
  then have "real (length p) * log 2 (real (charset_size U q))
               \<le> real (length q) * log 2 (real (charset_size U q))"
    using assms(2) by (simp add: mult_right_mono)
  then show ?thesis
    using False assms(1) by (simp add: calculate_entropy_def py_round2_mono)
qed

text \<open>
  C5. For two non-empty passwords with the same character classes present, the entropy
  of the shorter one is at most the entropy of the longer one. The logarithm of the
  charset size is not negative, the product with the length is monotone in the length,
  and rounding to two decimals is monotone; the same three steps are monotone on floats.
\<close>

theorem entropy_monotone_in_length:
  assumes "p \<noteq> []" and "q \<noteq> []"
    and "has_lower p = has_lower q" and "has_upper p = has_upper q"
    and "has_digit U p = has_digit U q" and "has_symbol p = has_symbol q"
    and "length p \<le> length q"
  shows "calculate_entropy U p \<le> calculate_entropy U q"
proof -
  have "charset_size U p = charset_size U q"
    using assms(3-6) by (simp add: charset_size_def)
  then show ?thesis using assms(7) by (rule calculate_entropy_mono_length)
qed


lemma log2_128: "log 2 (128::real) = 7"
proof -
  have "(128::real) = 2 ^ 7" by simp
  then show ?thesis using log_pow_cancel [of "2::real" 7] by simp
qed

lemma log2_64: "log 2 (64::real) = 6"
proof -
  have "(64::real) = 2 ^ 6" by simp
  then show ?thesis using log_pow_cancel [of "2::real" 6] by simp
qed

lemma log2_32: "log 2 (32::real) = 5"
proof -
  have "(32::real) = 2 ^ 5" by simp
  then show ?thesis using log_pow_cancel [of "2::real" 5] by simp
qed

lemma calculate_entropy_upper: "calculate_entropy U p \<le> 7 * real (length p)"
proof (cases "charset_size U p = 0")
  case True
  then show ?thesis by (simp add: calculate_entropy_def)
next
  case False
  then have pos: "0 < real (charset_size U p)" by simp
  have "real (charset_size U p) \<le> 128" using charset_size_le [of U p] by simp
  then have "log 2 (real (charset_size U p)) \<le> log 2 128"
    using pos by (intro log_mono) simp_all
  then have "log 2 (real (charset_size U p)) \<le> 7" by (simp add: log2_128)
  then have "real (length p) * log 2 (real (charset_size U p)) \<le> real (length p) * 7"
    by (intro mult_left_mono) simp_all
  then have "py_round2 (real (length p) * log 2 (real (charset_size U p)))
               \<le> py_round2 (real (length p) * 7)"
    by (rule py_round2_mono)
  moreover have "py_round2 (real (length p) * 7) = real (length p) * 7"
    using py_round2_of_int [of "int (length p) * 7"] by simp
  ultimately show ?thesis
    using False by (simp add: calculate_entropy_def)
qed

lemma calculate_entropy_lower:
  assumes "64 \<le> charset_size U p"
  shows "6 * real (length p) \<le> calculate_entropy U p"
proof -
  have "log 2 64 \<le> log 2 (real (charset_size U p))"
    using assms by (intro log_mono) simp_all
  then have "6 \<le> log 2 (real (charset_size U p))" by (simp add: log2_64)
  then have "real (length p) * 6 \<le> real (length p) * log 2 (real (charset_size U p))"
    by (intro mult_left_mono) simp_all
  then have "py_round2 (real (length p) * 6)
               \<le> py_round2 (real (length p) * log 2 (real (charset_size U p)))"
    by (rule py_round2_mono)
  moreover have "py_round2 (real (length p) * 6) = real (length p) * 6"
    using py_round2_of_int [of "int (length p) * 6"] by simp
  ultimately show ?thesis
    using assms by (simp add: calculate_entropy_def)
qed

lemma estimate_crack_time_returns:
  "ent < 1024 \<Longrightarrow> \<exists>t. estimate_crack_time ent = Inr t"
  by (simp add: estimate_crack_time_def Let_def)

lemma estimate_crack_time_overflow:
  "1024 \<le> ent \<Longrightarrow> estimate_crack_time ent = Inl OverflowError"
  by (simp add: estimate_crack_time_def)

lemma check_strength_returns:
  assumes "calculate_entropy U p < 1024"
  shows "\<exists>r. check_strength U p = Inr r"
proof -
  from estimate_crack_time_returns [OF assms]
  obtain t where "estimate_crack_time (calculate_entropy U p) = Inr t" by blast
  then show ?thesis by (simp add: check_strength_def Let_def)
qed

lemma check_strength_result:
  assumes "check_strength U p = Inr r" and "p \<noteq> []"
  shows "strength r = determine_strength (total_score U p) (calculate_entropy U p)"
    and "score r = max 0 (total_score U p)"
    and "entropy r = calculate_entropy U p"
    and "feedback r = (if all_feedback U p \<noteq> [] then all_feedback U p
                       else [''Password meets security requirements''])"
  using assms by (auto simp: check_strength_def Let_def split: sum.splits)

lemma empty_password_result:
  "check_strength U [] =
     Inr \<lparr>password = [], strength = VERY_WEAK, score = 0, entropy = 0,
          feedback = [''Password cannot be empty''], time_to_crack = ''Instant''\<rparr>"
  by (simp add: check_strength_def)

lemma check_patterns_nonpos: "fst (check_patterns U p) \<le> 0"
  by (simp add: check_patterns_def Let_def split: option.splits)

lemma check_sequences_nonpos: "fst (check_sequences U p) \<le> 0"
  by (simp add: check_sequences_def Let_def)

lemma total_score_empty: "total_score U [] \<le> 0"
proof -
  have "fst (check_length []) = - 2" by (simp add: check_length_def min_length_def)
  moreover have "fst (check_character_variety U []) = 0"
    by (simp add: check_character_variety_def has_lower_def has_upper_def has_digit_def
        has_symbol_def)
  ultimately show ?thesis
    using check_patterns_nonpos [of U "[]"] check_sequences_nonpos [of U "[]"]
    by (simp add: total_score_def)
qed


text \<open>Five and ten lowercase letters.\<close>

theorem entropy_monotone_in_length_witness:
  "calculate_entropy ascii_only (str ''abcde'') \<le> calculate_entropy ascii_only (str ''passphrase'')"
  by (rule entropy_monotone_in_length)
     (simp_all add: str_def has_lower_def has_upper_def has_digit_def has_symbol_def ascii_only_def)

text \<open>
  C2. The level of a returned result is the first band, in ascending order, whose
  condition "score at most the ceiling or entropy below the floor" holds, where the score
  compared is the sum of the four check deltas as it is, while the \<open>score\<close> field
  of the result is that sum clamped at 0. A result is returned whenever the entropy is
  below 1024.
\<close>

theorem strength_level_bands:
  "(calculate_entropy U p < 1024 \<longrightarrow> (\<exists>r. check_strength U p = Inr r)) \<and>
   (\<forall>r. check_strength U p = Inr r \<longrightarrow>
      (let total = fst (check_length p) + fst (check_character_variety U p) +
                   fst (check_patterns U p) + fst (check_sequences U p);
           ent = calculate_entropy U p
       in strength r =
            (if total \<le> 0 \<or> ent < 28 then VERY_WEAK
             else if total \<le> 2 \<or> ent < 36 then WEAK
             else if total \<le> 4 \<or> ent < 50 then FAIR
             else if total \<le> 6 \<or> ent < 60 then GOOD
             else if total \<le> 8 \<or> ent < 70 then STRONG
             else VERY_STRONG) \<and>
          score r = max 0 total))"
proof (intro conjI impI allI)
  assume "calculate_entropy U p < 1024"
  then show "\<exists>r. check_strength U p = Inr r" by (rule check_strength_returns)
next
  fix r
  assume r: "check_strength U p = Inr r"
  show "let total = fst (check_length p) + fst (check_character_variety U p) +
                   fst (check_patterns U p) + fst (check_sequences U p);
           ent = calculate_entropy U p
       in strength r =
            (if total \<le> 0 \<or> ent < 28 then VERY_WEAK
             else if total \<le> 2 \<or> ent < 36 then WEAK
             else if total \<le> 4 \<or> ent < 50 then FAIR
             else if total \<le> 6 \<or> ent < 60 then GOOD
             else if total \<le> 8 \<or> ent < 70 then STRONG
             else VERY_STRONG) \<and>
          score r = max 0 total"
  proof (cases "p = []")
    case True
    have "total_score U [] \<le> 0" by (rule total_score_empty)
    moreover have "strength r = VERY_WEAK" "score r = 0"
      using r True by (auto simp: empty_password_result)
    ultimately show ?thesis
      using True by (simp add: Let_def total_score_def)
  next
    case False
    from check_strength_result(1,2) [OF r False] show ?thesis
      by (simp add: Let_def total_score_def determine_strength_def)
  qed
qed

text \<open>
  C3. The \<open>score\<close> field of every result that \<open>check_strength\<close> returns is at least 0,
  also when the four check deltas sum to a negative number. A result is returned whenever
  the entropy is below 1024.
\<close>

theorem score_nonnegative:
  "(calculate_entropy U p < 1024 \<longrightarrow> (\<exists>r. check_strength U p = Inr r)) \<and>
   (\<forall>r. check_strength U p = Inr r \<longrightarrow> 0 \<le> score r)"
proof (intro conjI impI allI)
  assume "calculate_entropy U p < 1024"
  then show "\<exists>r. check_strength U p = Inr r" by (rule check_strength_returns)
next
  fix r
  assume r: "check_strength U p = Inr r"
  show "0 \<le> score r"
  proof (cases "p = []")
    case True
    with r show ?thesis by (auto simp: empty_password_result)
  next
    case False
    from check_strength_result(2) [OF r False] show ?thesis by simp
  qed
qed

lemma list_ex_replicate: "list_ex P (replicate n x) \<longleftrightarrow> 0 < n \<and> P x"
  by (auto simp: list_ex_iff)

lemma charset_size_symbols_only:
  "0 < n \<Longrightarrow> charset_size U (replicate n (of_char CHR ''!'')) = 32"
  by (simp add: charset_size_def has_lower_def has_upper_def has_digit_def has_symbol_def
      list_ex_replicate)

lemma entropy_205_symbols:
  "calculate_entropy U (replicate 205 (of_char CHR ''!'')) = 1025"
proof -
  have "charset_size U (replicate 205 (of_char CHR ''!'')) = 32"
    by (rule charset_size_symbols_only) simp
  moreover have "py_round2 1025 = 1025"
    using py_round2_of_int [of 1025] by simp
  ultimately show ?thesis
    by (simp add: calculate_entropy_def log2_32)
qed

lemma check_strength_overflow:
  "p \<noteq> [] \<Longrightarrow> 1024 \<le> calculate_entropy U p \<Longrightarrow> check_strength U p = Inl OverflowError"
  by (simp add: check_strength_def Let_def estimate_crack_time_overflow)

text \<open>
  C4. The empty password takes the fixed early exit: level \<open>VERY_WEAK\<close>, score 0,
  entropy 0, the single feedback "Password cannot be empty", crack time "Instant". But
  \<open>check_strength\<close> does fail on some strings: for a password of 205 exclamation marks
  the entropy is \<open>205 * log2(32) = 1025\<close>, and \<open>2 ** 1025.0\<close> in
  \<open>_estimate_crack_time\<close> raises \<open>OverflowError\<close>.
\<close>

theorem check_strength_empty_and_overflow:
  "check_strength U [] =
     Inr \<lparr>password = [], strength = VERY_WEAK, score = 0, entropy = 0,
          feedback = [''Password cannot be empty''], time_to_crack = ''Instant''\<rparr> \<and>
   check_strength U (replicate 205 (of_char CHR ''!'')) = Inl OverflowError"
proof
  show "check_strength U [] =
     Inr \<lparr>password = [], strength = VERY_WEAK, score = 0, entropy = 0,
          feedback = [''Password cannot be empty''], time_to_crack = ''Instant''\<rparr>"
    by (rule empty_password_result)
  have "1024 \<le> calculate_entropy U (replicate 205 (of_char CHR ''!''))"
    using entropy_205_symbols [of U] by simp
  moreover have "replicate 205 (of_char CHR ''!'' :: nat) \<noteq> []" by simp
  ultimately show "check_strength U (replicate 205 (of_char CHR ''!'')) = Inl OverflowError"
    by (intro check_strength_overflow)
qed


lemma entropy_small: "length p \<le> 146 \<Longrightarrow> calculate_entropy U p < 1024"
  using calculate_entropy_upper [of U p] by simp

lemma py_lower_password: "py_lower U (str ''password'') = str ''password''"
  by (simp add: py_lower_def is_ascii_def ascii_lower_def str_def)

lemma check_patterns_password:
  "check_patterns U (str ''password'') = (- 5, [''This is a commonly used password - avoid it''])"
  unfolding check_patterns_def py_lower_password
  by (simp add: COMMON_PASSWORDS_def COMMON_PATTERNS_def str_def)

lemma check_sequences_password: "check_sequences U (str ''password'') = (0, [])"
  unfolding check_sequences_def py_lower_password
  by (simp add: KEYBOARD_PATTERNS_def str_def)

lemma check_length_password: "fst (check_length (str ''password'')) = 1"
  by (simp add: check_length_def str_def min_length_def strong_length_def recommended_length_def)

lemma check_variety_password: "fst (check_character_variety U (str ''password'')) = 1"
  by (simp add: check_character_variety_def str_def has_lower_def has_upper_def has_digit_def
      has_symbol_def)

text \<open>
  C9. \<open>check_strength("password")\<close> returns a result whose feedback holds the entry
  "This is a commonly used password - avoid it" and whose level is \<open>VERY_WEAK\<close>: the
  four deltas are 1, 1, -5 and 0.
\<close>

theorem check_strength_password:
  "\<exists>r. check_strength U (str ''password'') = Inr r \<and>
       ''This is a commonly used password - avoid it'' \<in> set (feedback r) \<and>
       strength r = VERY_WEAK"
proof -
  have ne: "str ''password'' \<noteq> []" by (simp add: str_def)
  have "length (str ''password'') \<le> 146" by (simp add: str_def)
  then have "calculate_entropy U (str ''password'') < 1024" by (rule entropy_small)
  then obtain r where r: "check_strength U (str ''password'') = Inr r"
    using check_strength_returns by blast
  have total: "total_score U (str ''password'') = - 3"
    by (simp add: total_score_def check_length_password check_variety_password
        check_patterns_password check_sequences_password)
  have "strength r = VERY_WEAK"
    using check_strength_result(1) [OF r ne] total by (simp add: determine_strength_def)
  moreover have "''This is a commonly used password - avoid it'' \<in> set (all_feedback U (str ''password''))"
    by (simp add: all_feedback_def check_patterns_password)
  then have "''This is a commonly used password - avoid it'' \<in> set (feedback r)"
    using check_strength_result(4) [OF r ne] by (auto split: if_splits)
  ultimately show ?thesis using r by blast
qed


text \<open>The same with no Unicode table entries.\<close>

theorem check_strength_password_witness:
  "\<exists>r. check_strength ascii_only (str ''password'') = Inr r \<and>
       ''This is a commonly used password - avoid it'' \<in> set (feedback r) \<and>
       strength r = VERY_WEAK"
  using check_strength_password [of ascii_only] .

text \<open>\<open>qwerty\<close>, whose four deltas sum to a negative number.\<close>

theorem score_nonnegative_witness:
  "\<exists>r. check_strength ascii_only (str ''qwerty'') = Inr r \<and> 0 \<le> score r"
proof -
  have "length (str ''qwerty'') \<le> 146" by (simp add: str_def)
  then have "calculate_entropy ascii_only (str ''qwerty'') < 1024" by (rule entropy_small)
  then show ?thesis
    using score_nonnegative [of ascii_only "str ''qwerty''"] by blast
qed

lemma py_lower_example: "py_lower U (str ''Tr0ub4dor&3'') = str ''tr0ub4dor&3''"
  by (simp add: py_lower_def is_ascii_def ascii_lower_def str_def)

lemma checks_example:
  "fst (check_length (str ''Tr0ub4dor&3'')) = 1"
  "fst (check_character_variety U (str ''Tr0ub4dor&3'')) = 5"
  "fst (check_patterns U (str ''Tr0ub4dor&3'')) = 0"
  "fst (check_sequences U (str ''Tr0ub4dor&3'')) = 0"
proof -
  show "fst (check_length (str ''Tr0ub4dor&3'')) = 1"
    by (simp add: check_length_def str_def min_length_def strong_length_def recommended_length_def)
  show "fst (check_character_variety U (str ''Tr0ub4dor&3'')) = 5"
    by (simp add: check_character_variety_def str_def has_lower_def has_upper_def has_digit_def
        has_symbol_def)
  show "fst (check_patterns U (str ''Tr0ub4dor&3'')) = 0"
    unfolding check_patterns_def py_lower_example
    by (simp add: COMMON_PASSWORDS_def COMMON_PATTERNS_def str_def)
  show "fst (check_sequences U (str ''Tr0ub4dor&3'')) = 0"
    unfolding check_sequences_def py_lower_example
    by (simp add: KEYBOARD_PATTERNS_def str_def)
qed

lemma entropy_example: "66 \<le> calculate_entropy U (str ''Tr0ub4dor&3'')"
proof -
  have "charset_size U (str ''Tr0ub4dor&3'') = 94"
    by (simp add: charset_size_def str_def has_lower_def has_upper_def has_digit_def
        has_symbol_def)
  then have "64 \<le> charset_size U (str ''Tr0ub4dor&3'')" by simp
  from calculate_entropy_lower [OF this] show ?thesis by (simp add: str_def)
qed

text \<open>
  A password of eleven characters with all four classes: the deltas sum to 6 and the
  entropy is at least 66, so the first band that applies is \<open>GOOD\<close>.
\<close>

theorem strength_level_bands_witness:
  "\<exists>r. check_strength ascii_only (str ''Tr0ub4dor&3'') = Inr r \<and>
       strength r = GOOD \<and> score r = 6"
proof -
  have "length (str ''Tr0ub4dor&3'') \<le> 146" by (simp add: str_def)
  then have "calculate_entropy ascii_only (str ''Tr0ub4dor&3'') < 1024" by (rule entropy_small)
  then obtain r where r: "check_strength ascii_only (str ''Tr0ub4dor&3'') = Inr r"
    using strength_level_bands [of ascii_only "str ''Tr0ub4dor&3''"] by blast
  have "strength r = GOOD \<and> score r = 6"
    using strength_level_bands [of ascii_only "str ''Tr0ub4dor&3''"] r
      entropy_example [of ascii_only]
    by (simp add: Let_def checks_example)
  with r show ?thesis by blast
qed

end
